theory Spec2Isabelle
  imports Complex_Main
begin

section \<open>Strings\<close>

text \<open>
  A JavaScript string is represented by the bytes of its UTF-8 encoding (a \<open>char\<close> is a
  byte), which covers every string without lone surrogates. On this representation
  \<open>encodeURIComponent\<close> works byte by byte, and \<open>trim\<close> strips the encoded white space
  and line terminator characters of ECMAScript from both ends.
\<close>

definition js_whitespace :: "string list" where
  "js_whitespace =
    [[CHR 0x09], [CHR 0x0A], [CHR 0x0B], [CHR 0x0C], [CHR 0x0D], [CHR 0x20],
     [CHR 0xC2, CHR 0xA0],
     [CHR 0xE1, CHR 0x9A, CHR 0x80],
     [CHR 0xE2, CHR 0x80, CHR 0x80], [CHR 0xE2, CHR 0x80, CHR 0x81],
     [CHR 0xE2, CHR 0x80, CHR 0x82], [CHR 0xE2, CHR 0x80, CHR 0x83],
     [CHR 0xE2, CHR 0x80, CHR 0x84], [CHR 0xE2, CHR 0x80, CHR 0x85],
     [CHR 0xE2, CHR 0x80, CHR 0x86], [CHR 0xE2, CHR 0x80, CHR 0x87],
     [CHR 0xE2, CHR 0x80, CHR 0x88], [CHR 0xE2, CHR 0x80, CHR 0x89],
     [CHR 0xE2, CHR 0x80, CHR 0x8A],
     [CHR 0xE2, CHR 0x80, CHR 0xA8], [CHR 0xE2, CHR 0x80, CHR 0xA9],
     [CHR 0xE2, CHR 0x80, CHR 0xAF],
     [CHR 0xE2, CHR 0x81, CHR 0x9F],
     [CHR 0xE3, CHR 0x80, CHR 0x80],
     [CHR 0xEF, CHR 0xBB, CHR 0xBF]]"

text \<open>The number of bytes of the white space character that \<open>s\<close> starts with, 0 if none.\<close>

definition leading :: "string list \<Rightarrow> string \<Rightarrow> nat" where
  "leading ws s =
    (case find (\<lambda>w. w \<noteq> [] \<and> take (length w) s = w) ws of
       None \<Rightarrow> 0
     | Some w \<Rightarrow> length w)"

function strip :: "string list \<Rightarrow> string \<Rightarrow> string" where
  "strip ws s = (if leading ws s = 0 then s else strip ws (drop (leading ws s) s))"
  by pat_completeness auto
termination
proof (relation "measure (\<lambda>(ws, s). length s)")
  show "wf (measure (\<lambda>(ws, s). length s))"
    by simp
next
  fix ws :: "string list" and s :: string
  assume "leading ws s \<noteq> 0"
  then obtain w where w: "find (\<lambda>w. w \<noteq> [] \<and> take (length w) s = w) ws = Some w"
    and n: "leading ws s = length w"
    by (auto simp: leading_def split: option.splits)
  from w have "w \<noteq> []" and "take (length w) s = w"
    by (auto simp: find_Some_iff)
  then have "s \<noteq> []" and "0 < length w"
    by auto
  with n show "((ws, drop (leading ws s) s), (ws, s)) \<in> measure (\<lambda>(ws, s). length s)"
    by simp
qed

declare strip.simps [simp del]

definition trimStart :: "string \<Rightarrow> string" where
  "trimStart s = strip js_whitespace s"

definition trimEnd :: "string \<Rightarrow> string" where
  "trimEnd s = rev (strip (map rev js_whitespace) (rev s))"

definition trim :: "string \<Rightarrow> string" where
  "trim s = trimEnd (trimStart s)"

text \<open>\<open>Array.prototype.join\<close> on strings.\<close>

fun join :: "string \<Rightarrow> string list \<Rightarrow> string" where
  "join sep [] = []"
| "join sep [x] = x"
| "join sep (x # y # ys) = x @ sep @ join sep (y # ys)"

text \<open>\<open>String.prototype.includes\<close>.\<close>

fun str_includes :: "string \<Rightarrow> string \<Rightarrow> bool" where
  "str_includes [] n = (n = [])"
| "str_includes (c # cs) n = (take (length n) (c # cs) = n \<or> str_includes cs n)"

text \<open>
  \<open>encodeURIComponent\<close>: the unreserved characters stay, every other byte of the UTF-8
  encoding becomes \<open>%XX\<close> with upper-case hexadecimal digits.
\<close>

definition uriUnreserved :: "char \<Rightarrow> bool" where
  "uriUnreserved c \<longleftrightarrow>
     c \<in> set (''ABCDEFGHIJKLMNOPQRSTUVWXYZabcdefghijklmnopqrstuvwxyz0123456789'' @ ''-_.!~*'()'')"

definition hexDigit :: "nat \<Rightarrow> char" where
  "hexDigit n = ''0123456789ABCDEF'' ! (n mod 16)"

definition percentEncode :: "char \<Rightarrow> string" where
  "percentEncode c = [CHR ''%'', hexDigit (of_char c div 16), hexDigit (of_char c)]"

definition encodeURIComponent :: "string \<Rightarrow> string" where
  "encodeURIComponent s = concat (map (\<lambda>c. if uriUnreserved c then [c] else percentEncode c) s)"


section \<open>1. CONFIG\<close>

record config =
  WHATSAPP_NUMBER :: string
  FORM_ACTION_URL :: string
  WHATSAPP_DEFAULT_MESSAGE :: string
  NAVBAR_SCROLL_THRESHOLD :: real
  COUNTER_DURATION_MS :: nat

definition CONFIG :: config where
  "CONFIG = \<lparr>
     WHATSAPP_NUMBER = ''263717675763'',
     FORM_ACTION_URL = '''',
     WHATSAPP_DEFAULT_MESSAGE =
       ''Hi%20Dosmac!%20I%20need%20a%20quote%20for%20electrical%20work%20at%20my%20property.'',
     NAVBAR_SCROLL_THRESHOLD = 80,
     COUNTER_DURATION_MS = 2000 \<rparr>"


section \<open>The document\<close>

text \<open>
  What an element shows: \<open>el.textContent = s\<close> leaves the text \<open>s\<close>,
  \<open>el.innerHTML = h\<close> leaves the parsed markup \<open>h\<close>.
\<close>

datatype content = Text string | Markup string

record element =
  classList :: "string set"
  attributes :: "string \<rightharpoonup> string"
  el_value :: string
  content :: content
  borderColor :: string
  disabled :: bool

text \<open>\<open>document.getElementById\<close>: the document is a map from ids to elements.\<close>

type_synonym document = "string \<rightharpoonup> element"

text \<open>\<open>update_el d i f\<close>: a write through the element handle that \<open>getElementById i\<close> gave.\<close>

definition update_el :: "string \<Rightarrow> (element \<Rightarrow> element) \<Rightarrow> document \<Rightarrow> document" where
  "update_el i f d = (case d i of None \<Rightarrow> d | Some e \<Rightarrow> d(i \<mapsto> f e))"

text \<open>\<open>classList.add\<close>, \<open>classList.remove\<close> and \<open>setAttribute\<close> on an element.\<close>

definition classList_add :: "string \<Rightarrow> element \<Rightarrow> element" where
  "classList_add c e = e\<lparr>classList := insert c (classList e)\<rparr>"

definition classList_remove :: "string \<Rightarrow> element \<Rightarrow> element" where
  "classList_remove c e = e\<lparr>classList := classList e - {c}\<rparr>"

definition setAttribute :: "string \<Rightarrow> string \<Rightarrow> element \<Rightarrow> element" where
  "setAttribute k v e = e\<lparr>attributes := (attributes e)(k \<mapsto> v)\<rparr>"


section \<open>3. handleNavbarScroll\<close>

text \<open>
  The window as the navbar sees it: the document, the scroll offset, whether the scroll
  listener is attached, and the timer of the debounced \<open>updateNavbar\<close>: \<open>Some r\<close>
  when its timeout is pending with \<open>r\<close> milliseconds to go.
\<close>

record window =
  win_doc :: document
  scrollY :: real
  scrollListener :: bool
  scrollTimer :: "nat option"

text \<open>The window of a page that has just loaded at offset \<open>y\<close>.\<close>

definition loaded :: "document \<Rightarrow> real \<Rightarrow> window" where
  "loaded d y = \<lparr>win_doc = d, scrollY = y, scrollListener = False, scrollTimer = None\<rparr>"

definition updateNavbar :: "config \<Rightarrow> window \<Rightarrow> window" where
  "updateNavbar cfg w =
    w\<lparr>win_doc := update_el ''navbar''
          (\<lambda>navbar.
             if scrollY w > NAVBAR_SCROLL_THRESHOLD cfg
             then classList_add ''navbar--scrolled'' navbar
             else classList_remove ''navbar--scrolled'' navbar)
          (win_doc w)\<rparr>"

definition handleNavbarScroll :: "config \<Rightarrow> window \<Rightarrow> window" where
  "handleNavbarScroll cfg w =
    (case win_doc w ''navbar'' of
       None \<Rightarrow> w
     | Some navbar \<Rightarrow> (updateNavbar cfg w)\<lparr>scrollListener := True\<rparr>)"

text \<open>
  A call of the function \<open>debounce(updateNavbar, delay)\<close> returned:
  \<open>clearTimeout(timer)\<close>, then \<open>timer = setTimeout(..., delay)\<close>.
\<close>

definition debounce :: "nat \<Rightarrow> window \<Rightarrow> window" where
  "debounce delay w = w\<lparr>scrollTimer := Some delay\<rparr>"

text \<open>
  What happens to the window: a scroll event at a new offset, or time passing with no
  scroll event. The pending timer fires once its delay has passed, and
  \<open>updateNavbar\<close> reads the offset of that moment.
\<close>

datatype scroll_event = Scroll real | Elapse nat

fun scroll_step :: "config \<Rightarrow> window \<Rightarrow> scroll_event \<Rightarrow> window" where
  "scroll_step cfg w (Scroll y) =
     (let w1 = w\<lparr>scrollY := y\<rparr> in if scrollListener w1 then debounce 10 w1 else w1)"
| "scroll_step cfg w (Elapse ms) =
     (case scrollTimer w of
        None \<Rightarrow> w
      | Some remaining \<Rightarrow>
          if remaining \<le> ms then (updateNavbar cfg w)\<lparr>scrollTimer := None\<rparr>
          else w\<lparr>scrollTimer := Some (remaining - ms)\<rparr>)"

text \<open>The navbar carries the class \<open>navbar--scrolled\<close>.\<close>

definition scrolled :: "window \<Rightarrow> bool" where
  "scrolled w = (case win_doc w ''navbar'' of None \<Rightarrow> False | Some navbar \<Rightarrow> ''navbar--scrolled'' \<in> classList navbar)"

definition has_navbar :: "window \<Rightarrow> bool" where
  "has_navbar w \<longleftrightarrow> win_doc w ''navbar'' \<noteq> None"

text \<open>
  What every reachable window satisfies: with a navbar the listener is attached, a
  pending timer has at most 10 ms to go, and with no timer pending the class agrees
  with the offset.
\<close>

definition navbar_inv :: "config \<Rightarrow> window \<Rightarrow> bool" where
  "navbar_inv cfg w \<longleftrightarrow>
     (has_navbar w \<longrightarrow> scrollListener w) \<and>
     (case scrollTimer w of
        None \<Rightarrow> has_navbar w \<longrightarrow> (scrolled w \<longleftrightarrow> scrollY w > NAVBAR_SCROLL_THRESHOLD cfg)
      | Some remaining \<Rightarrow> remaining \<le> 10)"


section \<open>4. initMobileMenu\<close>














section \<open>6. animateCounters and 7. initScrollAnimations\<close>

















section \<open>8. initPortfolioFilter\<close>

text \<open>
  The two node lists of \<open>querySelectorAll\<close>, and whether the click listeners of the
  tabs are attached: with no tab or no item the function returns before.
\<close>

record portfolio =
  tabs :: "element list"
  items :: "element list"
  tabListeners :: bool

definition initPortfolioFilter :: "element list \<Rightarrow> element list \<Rightarrow> portfolio" where
  "initPortfolioFilter ts its =
    (if ts = [] \<or> its = [] then \<lparr>tabs = ts, items = its, tabListeners = False\<rparr>
     else \<lparr>tabs = ts, items = its, tabListeners = True\<rparr>)"

definition deselect :: "element \<Rightarrow> element" where
  "deselect t = setAttribute ''aria-selected'' ''false'' (classList_remove ''portfolio-tab--active'' t)"

definition select :: "element \<Rightarrow> element" where
  "select tab = setAttribute ''aria-selected'' ''true'' (classList_add ''portfolio-tab--active'' tab)"

definition showOrHide :: "string option \<Rightarrow> element \<Rightarrow> element" where
  "showOrHide filter_tag item =
    (let category = attributes item ''data-category''
     in if filter_tag = Some ''all'' \<or> category = filter_tag
        then classList_remove ''hidden'' item
        else classList_add ''hidden'' item)"

text \<open>A click on the tab at index \<open>i\<close>.\<close>

definition clickTab :: "nat \<Rightarrow> portfolio \<Rightarrow> portfolio" where
  "clickTab i p =
    (if \<not> tabListeners p \<or> length (tabs p) \<le> i then p
     else
       let filter_tag = attributes (tabs p ! i) ''data-filter'';
           ts = map deselect (tabs p);
           ts' = ts[i := select (ts ! i)]
       in p\<lparr>tabs := ts', items := map (showOrHide filter_tag) (items p)\<rparr>)"

text \<open>The active/selected state of a tab, and an item being shown.\<close>

definition active :: "element \<Rightarrow> bool" where
  "active t \<longleftrightarrow>
     ''portfolio-tab--active'' \<in> classList t \<and> attributes t ''aria-selected'' = Some ''true''"

definition inactive :: "element \<Rightarrow> bool" where
  "inactive t \<longleftrightarrow>
     ''portfolio-tab--active'' \<notin> classList t \<and> attributes t ''aria-selected'' = Some ''false''"

definition visible :: "element \<Rightarrow> bool" where
  "visible item \<longleftrightarrow> ''hidden'' \<notin> classList item"


section \<open>9. handleContactForm\<close>

text \<open>
  The page as the contact form sees it: the document, the callbacks waiting in
  \<open>setTimeout\<close> (each with its delay in milliseconds) and the effects that left the
  handler, in the order they happened.
\<close>

datatype task = OpenWindow string | EnableSubmit

datatype effect =
    PreventDefault
  | Fetch string
  | ConsoleWarn
  | FormReset
  | Notice string string
  | WindowOpen string

text \<open>
  \<open>FormReset\<close> records the call of \<open>form.reset()\<close>: the values it puts back are those
  of the markup. \<open>Notice\<close> records a message that \<open>showFeedback\<close> put into the feedback
  slot, with its type.
\<close>

text \<open>How \<open>await fetch(...)\<close> ends: a response that is ok, one that is not, or a throw.\<close>

datatype response = ResponseOk | ResponseNotOk | NetworkError

record page =
  doc :: document
  timers :: "(nat \<times> task) list"
  effects :: "effect list"

definition validateField :: "string \<Rightarrow> string \<Rightarrow> string \<Rightarrow> document \<Rightarrow> bool \<times> document" where
  "validateField fieldId errorId message d =
    (case (d fieldId, d errorId) of
       (Some field, Some error) \<Rightarrow>
         (let isEmpty = (trim (el_value field) = [] \<or> el_value field = []);
              d1 = update_el errorId (\<lambda>e. e\<lparr>content := Text (if isEmpty then message else [])\<rparr>) d;
              d2 = update_el fieldId (\<lambda>e. e\<lparr>borderColor := (if isEmpty then ''#FF5555'' else [])\<rparr>) d1
          in (\<not> isEmpty, d2))
     | _ \<Rightarrow> (True, d))"

definition validateForm :: "document \<Rightarrow> bool \<times> document" where
  "validateForm d =
    (let (nameOk, d1) = validateField ''clientName'' ''nameError'' ''Please enter your name.'' d;
         (phoneOk, d2) = validateField ''clientPhone'' ''phoneError'' ''Please enter your phone number.'' d1;
         (serviceOk, d3) = validateField ''serviceType'' ''serviceError'' ''Please select a service type.'' d2;
         (areaOk, d4) = validateField ''clientArea'' ''areaError'' ''Please enter your area or suburb.'' d3
     in (nameOk \<and> phoneOk \<and> serviceOk \<and> areaOk, d4))"

definition showFeedback :: "string \<Rightarrow> string \<Rightarrow> page \<Rightarrow> page" where
  "showFeedback message type p =
    (case doc p ''formFeedback'' of
       None \<Rightarrow> p
     | Some feedback \<Rightarrow>
         p\<lparr>doc := (doc p)(''formFeedback'' \<mapsto>
                feedback\<lparr>content := Text message, classList := {''form-feedback'', type}\<rparr>),
           effects := effects p @ [Notice message type]\<rparr>)"

text \<open>\<open>document.getElementById(i)?.value.trim() || ''\<close> and the same without \<open>trim\<close>.\<close>

definition trimmedValue :: "document \<Rightarrow> string \<Rightarrow> string" where
  "trimmedValue d i = (case d i of None \<Rightarrow> [] | Some e \<Rightarrow> trim (el_value e))"

definition rawValue :: "document \<Rightarrow> string \<Rightarrow> string" where
  "rawValue d i = (case d i of None \<Rightarrow> [] | Some e \<Rightarrow> el_value e)"

definition serviceLabels :: "(string \<times> string) list" where
  "serviceLabels =
    [(''solar'', ''Solar Installation''),
     (''wiring'', ''House Wiring / Rewire''),
     (''industrial'', ''Industrial / Commercial''),
     (''lighting'', ''Lighting Installation''),
     (''ac'', ''AC Installation / Repair''),
     (''db-board'', ''DB Board Upgrade''),
     (''other'', ''Other / Not Sure'')]"

text \<open>
  \<open>serviceLabels[service] || service\<close>, for the values a select control of the page
  carries (no key inherited from \<open>Object.prototype\<close>).
\<close>

definition serviceLabel :: "string \<Rightarrow> string" where
  "serviceLabel service =
    (case map_of serviceLabels service of Some l \<Rightarrow> l | None \<Rightarrow> service)"

definition waText :: "document \<Rightarrow> string" where
  "waText d =
    (let name = trimmedValue d ''clientName'';
         phone = trimmedValue d ''clientPhone'';
         service = rawValue d ''serviceType'';
         area = trimmedValue d ''clientArea'';
         message = trimmedValue d ''clientMessage''
     in join ''\<newline>''
          (filter (\<lambda>l. l \<noteq> [])
            [''Hi Dosmac! I'd like a quote for:'',
             ''Service: '' @ serviceLabel service,
             ''Area: '' @ area,
             ''Name: '' @ name,
             ''Phone: '' @ phone,
             if message \<noteq> [] then ''Details: '' @ message else []]))"

definition waUrl :: "config \<Rightarrow> document \<Rightarrow> string" where
  "waUrl cfg d = ''https://wa.me/'' @ WHATSAPP_NUMBER cfg @ ''?text='' @ encodeURIComponent (waText d)"

text \<open>The check mark U+2713 and the dash U+2014 of the source's literals, in UTF-8.\<close>

definition OPENING_WHATSAPP :: string where
  "OPENING_WHATSAPP = [CHR 0xE2, CHR 0x9C, CHR 0x93] @
     '' Opening WhatsApp with your details pre-filled. We'll reply within the hour!''"

definition MESSAGE_SENT :: string where
  "MESSAGE_SENT = [CHR 0xE2, CHR 0x9C, CHR 0x93] @
     '' Message sent! We'll be in touch within the hour. For urgent jobs call us directly.''"

definition SUBMIT_LABEL :: string where
  "SUBMIT_LABEL = ''<i class='' @ [CHR 0x22] @ ''fa-solid fa-paper-plane'' @ [CHR 0x22] @
     ''></i> Send My Enquiry '' @ [CHR 0xE2, CHR 0x80, CHR 0x94] @ '' We'll Reply Within 1 Hour''"

definition fallbackToWhatsApp :: "config \<Rightarrow> page \<Rightarrow> page" where
  "fallbackToWhatsApp cfg p =
    (let url = waUrl cfg (doc p);
         p1 = showFeedback OPENING_WHATSAPP ''success'' p
     in p1\<lparr>timers := timers p1 @ [(1500, OpenWindow url)]\<rparr>)"

definition disableSubmit :: "page \<Rightarrow> page" where
  "disableSubmit p =
    p\<lparr>doc := update_el ''submitBtn'' (\<lambda>b. b\<lparr>disabled := True, content := Text ''Sending...''\<rparr>) (doc p)\<rparr>"

definition enableSubmit :: "page \<Rightarrow> page" where
  "enableSubmit p =
    p\<lparr>doc := update_el ''submitBtn'' (\<lambda>b. b\<lparr>disabled := False, content := Markup SUBMIT_LABEL\<rparr>) (doc p)\<rparr>"

text \<open>
  The submit listener of the form, with the way the remote call ends as a parameter.
  Without \<open>#contactForm\<close> no listener is attached.
\<close>

definition submit :: "config \<Rightarrow> response \<Rightarrow> page \<Rightarrow> page" where
  "submit cfg r p =
    (if doc p ''contactForm'' = None then p
     else
       let p0 = p\<lparr>effects := effects p @ [PreventDefault]\<rparr>;
           (ok, d) = validateForm (doc p0)
       in if \<not> ok then p0\<lparr>doc := d\<rparr>
          else
            let p1 = disableSubmit (p0\<lparr>doc := d\<rparr>)
            in if FORM_ACTION_URL cfg = [] then
                 (let p2 = fallbackToWhatsApp cfg p1
                  in p2\<lparr>timers := timers p2 @ [(3000, EnableSubmit)]\<rparr>)
               else
                 (let p2 = p1\<lparr>effects := effects p1 @ [Fetch (FORM_ACTION_URL cfg)]\<rparr>
                  in enableSubmit
                       (case r of
                          ResponseOk \<Rightarrow>
                            showFeedback MESSAGE_SENT ''success''
                              (p2\<lparr>effects := effects p2 @ [FormReset]\<rparr>)
                        | ResponseNotOk \<Rightarrow> fallbackToWhatsApp cfg p2
                        | NetworkError \<Rightarrow>
                            fallbackToWhatsApp cfg (p2\<lparr>effects := effects p2 @ [ConsoleWarn]\<rparr>))))"

text \<open>A timer fires: its callback runs.\<close>

fun run_task :: "page \<Rightarrow> task \<Rightarrow> page" where
  "run_task p (OpenWindow url) = p\<lparr>effects := effects p @ [WindowOpen url]\<rparr>"
| "run_task p EnableSubmit = enableSubmit p"

text \<open>
  All pending timers fire, the shorter delay first and, for equal delays, the one set
  first (\<open>sort_key\<close> is stable).
\<close>

definition settle :: "page \<Rightarrow> page" where
  "settle p = foldl run_task (p\<lparr>timers := []\<rparr>) (map snd (sort_key fst (timers p)))"

text \<open>The four calls of \<open>validateForm\<close>: field id, error slot id, message.\<close>

definition required_fields :: "(string \<times> string \<times> string) list" where
  "required_fields =
    [(''clientName'', ''nameError'', ''Please enter your name.''),
     (''clientPhone'', ''phoneError'', ''Please enter your phone number.''),
     (''serviceType'', ''serviceError'', ''Please select a service type.''),
     (''clientArea'', ''areaError'', ''Please enter your area or suburb.'')]"




text \<open>The message composed for the enquiry John, 0771234567, solar, Harare.\<close>

definition QUOTE_TEXT :: string where
  "QUOTE_TEXT = ''Hi Dosmac! I'd like a quote for:\<newline>Service: Solar Installation\<newline>Area: Harare\<newline>Name: John\<newline>Phone: 0771234567''"


section \<open>Examples\<close>

text \<open>
  A page for the examples: the form with every element the script looks up, filled in
  with the enquiry above, and nothing pending.
\<close>

definition field :: "string \<Rightarrow> element" where
  "field v = \<lparr>classList = {}, attributes = Map.empty, el_value = v, content = Text [],
               borderColor = [], disabled = False\<rparr>"

definition enquiry_doc :: document where
  "enquiry_doc =
    [''contactForm'' \<mapsto> field [],
     ''clientName'' \<mapsto> field ''John'', ''nameError'' \<mapsto> field [],
     ''clientPhone'' \<mapsto> field ''0771234567'', ''phoneError'' \<mapsto> field [],
     ''serviceType'' \<mapsto> field ''solar'', ''serviceError'' \<mapsto> field [],
     ''clientArea'' \<mapsto> field ''Harare'', ''areaError'' \<mapsto> field [],
     ''clientMessage'' \<mapsto> field [],
     ''formFeedback'' \<mapsto> field [],
     ''submitBtn'' \<mapsto> (field [])\<lparr>content := Markup SUBMIT_LABEL\<rparr>]"

definition enquiry_page :: page where
  "enquiry_page = \<lparr>doc = enquiry_doc, timers = [], effects = []\<rparr>"


section \<open>Properties of the navbar\<close>

lemma updateNavbar_scrolled:
  "has_navbar w \<Longrightarrow>
   scrolled (updateNavbar cfg w) \<longleftrightarrow> scrollY w > NAVBAR_SCROLL_THRESHOLD cfg"
  by (auto simp: has_navbar_def scrolled_def updateNavbar_def update_el_def classList_add_def
      classList_remove_def split: if_splits)

lemma updateNavbar_navbar: "has_navbar (updateNavbar cfg w) = has_navbar w"
  by (auto simp: has_navbar_def updateNavbar_def update_el_def split: option.splits)

lemma has_navbar_upd [simp]:
  "has_navbar (w\<lparr>scrollListener := l\<rparr>) = has_navbar w"
  "has_navbar (w\<lparr>scrollTimer := t\<rparr>) = has_navbar w"
  "has_navbar (w\<lparr>scrollY := y\<rparr>) = has_navbar w"
  by (simp_all add: has_navbar_def)

lemma updateNavbar_fields:
  "scrollY (updateNavbar cfg w) = scrollY w"
  "scrollListener (updateNavbar cfg w) = scrollListener w"
  "scrollTimer (updateNavbar cfg w) = scrollTimer w"
  by (simp_all add: updateNavbar_def)

lemma scrolled_upd [simp]:
  "scrolled (w\<lparr>scrollListener := l\<rparr>) = scrolled w"
  "scrolled (w\<lparr>scrollTimer := t\<rparr>) = scrolled w"
  "scrolled (w\<lparr>scrollY := y\<rparr>) = scrolled w"
  by (simp_all add: scrolled_def)

lemma handleNavbarScroll_loaded:
  "d ''navbar'' \<noteq> None \<Longrightarrow>
   handleNavbarScroll cfg (loaded d y) = (updateNavbar cfg (loaded d y))\<lparr>scrollListener := True\<rparr>"
  "d ''navbar'' = None \<Longrightarrow> handleNavbarScroll cfg (loaded d y) = loaded d y"
  by (auto simp: handleNavbarScroll_def loaded_def)

lemma has_navbar_loaded: "has_navbar (loaded d y) \<longleftrightarrow> d ''navbar'' \<noteq> None"
  by (simp add: has_navbar_def loaded_def)

lemma navbar_inv_init: "navbar_inv cfg (handleNavbarScroll cfg (loaded d y))"
proof (cases "d ''navbar'' = None")
  case True
  then show ?thesis
    by (simp add: handleNavbarScroll_def navbar_inv_def has_navbar_def loaded_def)
next
  case False
  then have l: "has_navbar (loaded d y)"
    by (simp add: has_navbar_loaded)
  then have "scrolled (updateNavbar cfg (loaded d y)) \<longleftrightarrow> scrollY (loaded d y) > NAVBAR_SCROLL_THRESHOLD cfg"
    by (rule updateNavbar_scrolled)
  moreover have "scrollY (loaded d y) = y" and "scrollTimer (loaded d y) = None"
    by (simp_all add: loaded_def)
  moreover have "handleNavbarScroll cfg (loaded d y) = (updateNavbar cfg (loaded d y))\<lparr>scrollListener := True\<rparr>"
    using False by (rule handleNavbarScroll_loaded)
  ultimately show ?thesis
    by (simp add: navbar_inv_def updateNavbar_fields)
qed

lemma navbar_inv_step: "navbar_inv cfg w \<Longrightarrow> navbar_inv cfg (scroll_step cfg w ev)"
  by (cases ev)
    (auto simp: navbar_inv_def debounce_def Let_def updateNavbar_scrolled updateNavbar_navbar
      updateNavbar_fields split: option.splits)

lemma navbar_inv_run: "navbar_inv cfg w \<Longrightarrow> navbar_inv cfg (foldl (scroll_step cfg) w evs)"
  by (induction evs arbitrary: w) (simp_all add: navbar_inv_step)

lemma scroll_run_navbar:
  "has_navbar (foldl (scroll_step cfg) w evs) = has_navbar w"
proof (induction evs arbitrary: w)
  case Nil
  show ?case by simp
next
  case (Cons ev evs)
  have "has_navbar (scroll_step cfg w ev) = has_navbar w"
    by (cases ev) (auto simp: debounce_def Let_def updateNavbar_navbar split: option.splits)
  with Cons.IH [of "scroll_step cfg w ev"] show ?case by simp
qed

text \<open>
  C4: on a page with a navbar, right after \<open>handleNavbarScroll\<close> ran at load, with no
  scroll event yet, no timer is pending and the navbar carries the scrolled class if and
  only if the offset of the page exceeds the threshold. After any scroll events and
  pauses, whenever no timer of the debounced handler is pending the navbar carries the
  class if and only if the current offset exceeds the threshold; and 10 ms without a
  scroll event always bring that state about.
\<close>

theorem navbar_scrolled_iff_past_threshold:
  assumes navbar: "d ''navbar'' \<noteq> None"
    and run: "w = foldl (scroll_step cfg) (handleNavbarScroll cfg (loaded d y)) evs"
  shows "scrollTimer (handleNavbarScroll cfg (loaded d y)) = None \<and>
         (scrolled (handleNavbarScroll cfg (loaded d y)) \<longleftrightarrow> y > NAVBAR_SCROLL_THRESHOLD cfg) \<and>
         (scrollTimer w = None \<longrightarrow> (scrolled w \<longleftrightarrow> scrollY w > NAVBAR_SCROLL_THRESHOLD cfg)) \<and>
         (10 \<le> ms \<longrightarrow>
            scrollTimer (scroll_step cfg w (Elapse ms)) = None \<and>
            scrollY (scroll_step cfg w (Elapse ms)) = scrollY w \<and>
            (scrolled (scroll_step cfg w (Elapse ms)) \<longleftrightarrow> scrollY w > NAVBAR_SCROLL_THRESHOLD cfg))"
proof -
  define w0 where "w0 = handleNavbarScroll cfg (loaded d y)"
  have w0: "w0 = (updateNavbar cfg (loaded d y))\<lparr>scrollListener := True\<rparr>"
    unfolding w0_def using navbar by (rule handleNavbarScroll_loaded)
  have l: "has_navbar (loaded d y)"
    using navbar by (simp add: has_navbar_loaded)
  then have n0: "has_navbar w0"
    by (simp add: w0 updateNavbar_navbar)
  then have n: "has_navbar w"
    by (simp add: run w0_def scroll_run_navbar)
  have i0: "navbar_inv cfg w0"
    unfolding w0_def by (rule navbar_inv_init)
  then have i: "navbar_inv cfg w"
    unfolding run w0_def by (rule navbar_inv_run)
  have t0: "scrollTimer w0 = None"
    by (simp add: w0 updateNavbar_fields) (simp add: loaded_def)
  have s0: "scrolled w0 \<longleftrightarrow> y > NAVBAR_SCROLL_THRESHOLD cfg"
    using l by (simp add: w0 updateNavbar_scrolled) (simp add: loaded_def)
  have s: "scrolled w \<longleftrightarrow> scrollY w > NAVBAR_SCROLL_THRESHOLD cfg" if "scrollTimer w = None"
    using i n that by (simp add: navbar_inv_def)
  have e: "scrollTimer (scroll_step cfg w (Elapse ms)) = None \<and>
      scrollY (scroll_step cfg w (Elapse ms)) = scrollY w \<and>
      (scrolled (scroll_step cfg w (Elapse ms)) \<longleftrightarrow> scrollY w > NAVBAR_SCROLL_THRESHOLD cfg)"
    if "10 \<le> ms"
    using i n that
    by (auto simp: navbar_inv_def updateNavbar_fields updateNavbar_scrolled split: option.splits)
  show ?thesis
    using t0 s0 s e unfolding w0_def by blast
qed

theorem navbar_scrolled_iff_past_threshold_witness:
  "[''navbar'' \<mapsto> field []] ''navbar'' \<noteq> None \<and>
   scrolled (handleNavbarScroll CONFIG (loaded [''navbar'' \<mapsto> field []] 120)) \<and>
   scrollTimer (foldl (scroll_step CONFIG) (handleNavbarScroll CONFIG (loaded [''navbar'' \<mapsto> field []] 120))
     [Scroll 300, Elapse 4, Scroll 20]) = Some 10 \<and>
   scrolled (foldl (scroll_step CONFIG) (handleNavbarScroll CONFIG (loaded [''navbar'' \<mapsto> field []] 120))
     [Scroll 300, Elapse 4, Scroll 20]) \<and>
   scrollTimer (scroll_step CONFIG
     (foldl (scroll_step CONFIG) (handleNavbarScroll CONFIG (loaded [''navbar'' \<mapsto> field []] 120))
        [Scroll 300, Elapse 4, Scroll 20]) (Elapse 10)) = None \<and>
   \<not> scrolled (scroll_step CONFIG
     (foldl (scroll_step CONFIG) (handleNavbarScroll CONFIG (loaded [''navbar'' \<mapsto> field []] 120))
        [Scroll 300, Elapse 4, Scroll 20]) (Elapse 10))"
proof -
  define d :: document where "d = [''navbar'' \<mapsto> field []]"
  define w0 where "w0 = handleNavbarScroll CONFIG (loaded d 120)"
  define w where "w = foldl (scroll_step CONFIG) w0 [Scroll 300, Elapse 4, Scroll 20]"
  have navbar: "d ''navbar'' \<noteq> None"
    by (simp add: d_def)
  have run: "w = foldl (scroll_step CONFIG) (handleNavbarScroll CONFIG (loaded d 120)) [Scroll 300, Elapse 4, Scroll 20]"
    by (simp only: w_def w0_def)
  have thr: "NAVBAR_SCROLL_THRESHOLD CONFIG = 80"
    by (simp add: CONFIG_def)
  have y: "scrollY w = 20" and tw: "scrollTimer w = Some 10" and sw: "scrolled w"
    by (simp_all add: w_def w0_def d_def handleNavbarScroll_def loaded_def updateNavbar_def
        update_el_def classList_add_def classList_remove_def debounce_def scrolled_def thr)
  have ten: "(10::nat) \<le> 10"
    by simp
  have "d ''navbar'' \<noteq> None \<and> scrolled w0 \<and> scrollTimer w = Some 10 \<and> scrolled w \<and>
    scrollTimer (scroll_step CONFIG w (Elapse 10)) = None \<and>
    \<not> scrolled (scroll_step CONFIG w (Elapse 10))"
    using navbar navbar_scrolled_iff_past_threshold [OF navbar run, of 10] y tw sw
    by (simp add: thr w0_def del: scroll_step.simps)
  then show ?thesis
    unfolding w_def w0_def d_def .
qed


section \<open>Properties of the mobile menu\<close>















section \<open>Properties of the reveal observers\<close>













section \<open>Properties of the portfolio filter\<close>

lemma showOrHide_visible:
  "visible (showOrHide filter_tag item) \<longleftrightarrow>
     filter_tag = Some ''all'' \<or> attributes item ''data-category'' = filter_tag"
  by (simp add: visible_def showOrHide_def classList_add_def classList_remove_def)

lemma select_active: "active (select t)" "\<not> inactive (select t)"
  by (simp_all add: active_def inactive_def select_def setAttribute_def classList_add_def)

lemma deselect_inactive: "inactive (deselect t)" "\<not> active (deselect t)"
  by (simp_all add: active_def inactive_def deselect_def setAttribute_def classList_remove_def)

text \<open>
  C6: on a page with at least one item, after a click on the tab at index \<open>i\<close> with
  filter tag \<open>filter_tag\<close>: if the tag is \<open>all\<close> every item is shown; otherwise an item
  is shown exactly when its category tag equals the filter tag, and hidden otherwise;
  and the clicked tab is the one tab that carries the active class with
  \<open>aria-selected\<close> true, every other tab carrying neither.
\<close>

theorem portfolio_filter_selection:
  assumes its: "its \<noteq> []" and i: "i < length ts"
    and p: "p = clickTab i (initPortfolioFilter ts its)"
    and f: "filter_tag = attributes (ts ! i) ''data-filter''"
  shows "length (items p) = length its \<and> length (tabs p) = length ts \<and>
    (filter_tag = Some ''all'' \<longrightarrow> (\<forall>k < length its. visible (items p ! k))) \<and>
    (filter_tag \<noteq> Some ''all'' \<longrightarrow>
       (\<forall>k < length its. visible (items p ! k) \<longleftrightarrow> attributes (its ! k) ''data-category'' = filter_tag)) \<and>
    (\<forall>j < length ts. (active (tabs p ! j) \<longleftrightarrow> j = i) \<and> (inactive (tabs p ! j) \<longleftrightarrow> j \<noteq> i))"
proof -
  from i have "ts \<noteq> []"
    by auto
  with its i have p': "p = \<lparr>tabs = (map deselect ts)[i := select (deselect (ts ! i))],
      items = map (showOrHide filter_tag) its, tabListeners = True\<rparr>"
    unfolding p f by (simp add: clickTab_def initPortfolioFilter_def Let_def)
  have t: "\<forall>j < length ts. (active (tabs p ! j) \<longleftrightarrow> j = i) \<and> (inactive (tabs p ! j) \<longleftrightarrow> j \<noteq> i)"
    using i by (simp add: p' nth_list_update select_active deselect_inactive)
  have v: "\<forall>k < length its. visible (items p ! k) \<longleftrightarrow>
      filter_tag = Some ''all'' \<or> attributes (its ! k) ''data-category'' = filter_tag"
    by (simp add: p' showOrHide_visible)
  have l: "length (items p) = length its" "length (tabs p) = length ts"
    by (simp_all add: p')
  from t v l show ?thesis
    by blast
qed

theorem portfolio_filter_selection_witness:
  "attributes ([(field [])\<lparr>attributes := [''data-filter'' \<mapsto> ''all'']\<rparr>,
                (field [])\<lparr>attributes := [''data-filter'' \<mapsto> ''solar'']\<rparr>] ! 1) ''data-filter'' = Some ''solar'' \<and>
   visible (items (clickTab 1 (initPortfolioFilter
       [(field [])\<lparr>attributes := [''data-filter'' \<mapsto> ''all'']\<rparr>,
        (field [])\<lparr>attributes := [''data-filter'' \<mapsto> ''solar'']\<rparr>]
       [(field [])\<lparr>attributes := [''data-category'' \<mapsto> ''solar'']\<rparr>,
        (field [])\<lparr>attributes := [''data-category'' \<mapsto> ''wiring'']\<rparr>])) ! 0) \<and>
   \<not> visible (items (clickTab 1 (initPortfolioFilter
       [(field [])\<lparr>attributes := [''data-filter'' \<mapsto> ''all'']\<rparr>,
        (field [])\<lparr>attributes := [''data-filter'' \<mapsto> ''solar'']\<rparr>]
       [(field [])\<lparr>attributes := [''data-category'' \<mapsto> ''solar'']\<rparr>,
        (field [])\<lparr>attributes := [''data-category'' \<mapsto> ''wiring'']\<rparr>])) ! 1) \<and>
   inactive (tabs (clickTab 1 (initPortfolioFilter
       [(field [])\<lparr>attributes := [''data-filter'' \<mapsto> ''all'']\<rparr>,
        (field [])\<lparr>attributes := [''data-filter'' \<mapsto> ''solar'']\<rparr>]
       [(field [])\<lparr>attributes := [''data-category'' \<mapsto> ''solar'']\<rparr>,
        (field [])\<lparr>attributes := [''data-category'' \<mapsto> ''wiring'']\<rparr>])) ! 0) \<and>
   active (tabs (clickTab 1 (initPortfolioFilter
       [(field [])\<lparr>attributes := [''data-filter'' \<mapsto> ''all'']\<rparr>,
        (field [])\<lparr>attributes := [''data-filter'' \<mapsto> ''solar'']\<rparr>]
       [(field [])\<lparr>attributes := [''data-category'' \<mapsto> ''solar'']\<rparr>,
        (field [])\<lparr>attributes := [''data-category'' \<mapsto> ''wiring'']\<rparr>])) ! 1)"
proof -
  define ts where "ts = [(field [])\<lparr>attributes := [''data-filter'' \<mapsto> ''all'']\<rparr>,
        (field [])\<lparr>attributes := [''data-filter'' \<mapsto> ''solar'']\<rparr>]"
  define its where "its = [(field [])\<lparr>attributes := [''data-category'' \<mapsto> ''solar'']\<rparr>,
        (field [])\<lparr>attributes := [''data-category'' \<mapsto> ''wiring'']\<rparr>]"
  have n: "its \<noteq> []" and i: "1 < length ts"
    by (simp_all add: its_def ts_def)
  have f: "attributes (ts ! 1) ''data-filter'' = Some ''solar''"
    by (simp add: ts_def)
  have c: "attributes (its ! 0) ''data-category'' = Some ''solar''"
    "attributes (its ! 1) ''data-category'' = Some ''wiring''"
    by (simp_all add: its_def)
  have l: "length its = 2" "length ts = 2"
    by (simp_all add: its_def ts_def)
  have "attributes (ts ! 1) ''data-filter'' = Some ''solar'' \<and>
    visible (items (clickTab 1 (initPortfolioFilter ts its)) ! 0) \<and>
    \<not> visible (items (clickTab 1 (initPortfolioFilter ts its)) ! 1) \<and>
    inactive (tabs (clickTab 1 (initPortfolioFilter ts its)) ! 0) \<and>
    active (tabs (clickTab 1 (initPortfolioFilter ts its)) ! 1)"
    using portfolio_filter_selection [OF n i refl refl] f c
    by (simp add: l)
  then show ?thesis
    unfolding ts_def its_def .
qed


section \<open>Properties of the contact form\<close>

lemma leading_Nil: "leading ws [] = 0"
  by (auto simp: leading_def find_Some_iff split: option.splits)

lemma strip_Nil: "strip ws [] = []"
  by (simp add: strip.simps leading_Nil)

lemma trim_Nil: "trim [] = []"
  by (simp add: trim_def trimStart_def trimEnd_def strip_Nil)

lemma trim_scenario:
  "trim ''John'' = ''John''" "trim ''0771234567'' = ''0771234567''" "trim ''Harare'' = ''Harare''"
  "trim ''solar'' = ''solar''"
  by code_simp+


lemma validateField_other:
  "i \<noteq> f \<Longrightarrow> i \<noteq> e \<Longrightarrow> snd (validateField f e m d) i = d i"
  by (auto simp: validateField_def update_el_def Let_def split: option.splits)

lemma validateField_value:
  "map_option el_value (snd (validateField f e m d) i) = map_option el_value (d i)"
  by (auto simp: validateField_def update_el_def Let_def split: option.splits)

lemma validateForm_other:
  "i \<notin> {''clientName'', ''nameError'', ''clientPhone'', ''phoneError'',
          ''serviceType'', ''serviceError'', ''clientArea'', ''areaError''} \<Longrightarrow>
   snd (validateForm d) i = d i"
  by (simp add: validateForm_def Let_def split_beta validateField_other)

lemma validateForm_value:
  "map_option el_value (snd (validateForm d) i) = map_option el_value (d i)"
  by (simp add: validateForm_def Let_def split_beta validateField_value)





lemma validateField_ok_iff:
  "fst (validateField f e m d) \<longleftrightarrow> d f = None \<or> d e = None \<or> trim (rawValue d f) \<noteq> []"
  by (auto simp: validateField_def rawValue_def Let_def trim_Nil split: option.splits)

lemma validateField_dom:
  "snd (validateField f e m d) i = None \<longleftrightarrow> d i = None"
  by (auto simp: validateField_def update_el_def Let_def split: option.splits)

lemma validateField_rawValue:
  "rawValue (snd (validateField f e m d)) i = rawValue d i"
  using validateField_value [of f e m d i]
  by (auto simp: rawValue_def split: option.splits)

lemma validateForm_ok_iff:
  "fst (validateForm d) \<longleftrightarrow>
     (\<forall>(f, e, m) \<in> set required_fields. d f = None \<or> d e = None \<or> trim (rawValue d f) \<noteq> [])"
  by (simp add: validateForm_def required_fields_def split_beta
      validateField_ok_iff validateField_dom validateField_rawValue)

text \<open>
  C10: when the input element or the error slot of a required field is missing from the
  document, \<open>validateField\<close> answers \<open>true\<close> and leaves the document as it is; the
  verdict of \<open>validateForm\<close> is then the verdict on the other required fields alone,
  so the submission goes on with that field unchecked.
\<close>

theorem validateField_missing_element:
  assumes "d fieldId = None \<or> d errorId = None"
  shows "validateField fieldId errorId message d = (True, d) \<and>
    fst (validateForm d) =
      (\<forall>(f, e, m) \<in> set required_fields - {(fieldId, errorId, message)}.
         d f = None \<or> d e = None \<or> trim (rawValue d f) \<noteq> [])"
proof
  from assms show "validateField fieldId errorId message d = (True, d)"
    by (auto simp: validateField_def split: option.splits)
next
  from assms show "fst (validateForm d) =
      (\<forall>(f, e, m) \<in> set required_fields - {(fieldId, errorId, message)}.
         d f = None \<or> d e = None \<or> trim (rawValue d f) \<noteq> [])"
    unfolding validateForm_ok_iff by blast
qed

theorem validateField_missing_element_witness:
  "(enquiry_doc(''clientName'' \<mapsto> field [], ''nameError'' := None)) ''nameError'' = None \<and>
   trim (rawValue (enquiry_doc(''clientName'' \<mapsto> field [], ''nameError'' := None)) ''clientName'') = [] \<and>
   validateField ''clientName'' ''nameError'' ''Please enter your name.''
       (enquiry_doc(''clientName'' \<mapsto> field [], ''nameError'' := None)) =
     (True, enquiry_doc(''clientName'' \<mapsto> field [], ''nameError'' := None)) \<and>
   fst (validateForm (enquiry_doc(''clientName'' \<mapsto> field [], ''nameError'' := None)))"
proof -
  define d where "d = enquiry_doc(''clientName'' \<mapsto> field [], ''nameError'' := None)"
  have missing: "d ''clientName'' = None \<or> d ''nameError'' = None"
    by (simp add: d_def)
  have raw: "rawValue d ''clientPhone'' = ''0771234567''" "rawValue d ''serviceType'' = ''solar''"
    "rawValue d ''clientArea'' = ''Harare''" "rawValue d ''clientName'' = []"
    by (simp_all add: d_def rawValue_def enquiry_doc_def field_def)
  have "d ''nameError'' = None \<and> trim (rawValue d ''clientName'') = [] \<and>
    validateField ''clientName'' ''nameError'' ''Please enter your name.'' d = (True, d) \<and>
    fst (validateForm d)"
    using validateField_missing_element [OF missing, of "''Please enter your name.''"]
    by (simp add: required_fields_def raw trim_scenario trim_Nil) (simp add: d_def)
  then show ?thesis
    by (simp only: d_def)
qed



lemma trimmedValue_rawValue: "trimmedValue d i = trim (rawValue d i)"
  by (simp add: trimmedValue_def rawValue_def trim_Nil split: option.splits)

lemma validateForm_rawValue: "rawValue (snd (validateForm d)) i = rawValue d i"
  using validateForm_value [of d i] by (auto simp: rawValue_def split: option.splits)

lemma rawValue_update_el:
  "(\<And>e. el_value (f e) = el_value e) \<Longrightarrow> rawValue (update_el j f d) i = rawValue d i"
  by (auto simp: rawValue_def update_el_def split: option.splits)

lemma waText_cong: "(\<And>i. rawValue d i = rawValue d' i) \<Longrightarrow> waText d = waText d'"
  by (simp add: waText_def trimmedValue_rawValue)

lemma waUrl_validated:
  "waUrl cfg (doc (disableSubmit (p\<lparr>doc := snd (validateForm (doc p))\<rparr>))) = waUrl cfg (doc p)"
proof -
  have "waText (doc (disableSubmit (p\<lparr>doc := snd (validateForm (doc p))\<rparr>))) = waText (doc p)"
    by (rule waText_cong) (simp add: disableSubmit_def rawValue_update_el validateForm_rawValue)
  then show ?thesis
    by (simp add: waUrl_def)
qed

lemma feedback_validated:
  "doc (disableSubmit (p\<lparr>doc := snd (validateForm (doc p))\<rparr>)) ''formFeedback'' = doc p ''formFeedback''"
  by (simp add: disableSubmit_def update_el_def validateForm_other split: option.splits)



lemma str_includes_Nil: "str_includes h []"
  by (cases h) simp_all

lemma str_includes_append: "str_includes a n \<Longrightarrow> str_includes (a @ b) n"
proof (induction a)
  case Nil
  then show ?case by (simp add: str_includes_Nil)
next
  case (Cons c cs)
  show ?case
  proof (cases "take (length n) (c # cs) = n")
    case True
    then have "length n = min (length (c # cs)) (length n)"
      by (metis length_take)
    then have "length n \<le> length (c # cs)"
      by linarith
    then have "take (length n) ((c # cs) @ b) = take (length n) (c # cs)"
      by (subst take_append) simp
    with True have "take (length n) ((c # cs) @ b) = n"
      by (simp only:)
    then show ?thesis by simp
  next
    case False
    with Cons show ?thesis by simp
  qed
qed

lemma waText_scenario:
  assumes "rawValue d ''clientName'' = ''John''"
    and "rawValue d ''clientPhone'' = ''0771234567''"
    and "rawValue d ''serviceType'' = ''solar''"
    and "rawValue d ''clientArea'' = ''Harare''"
  shows "waText d = QUOTE_TEXT @
    (if trimmedValue d ''clientMessage'' = [] then []
     else ''\<newline>Details: '' @ trimmedValue d ''clientMessage'')"
  using assms
  by (simp add: waText_def Let_def trimmedValue_rawValue trim_scenario serviceLabel_def
      serviceLabels_def QUOTE_TEXT_def)

lemma QUOTE_TEXT_includes:
  "str_includes QUOTE_TEXT ''Service: Solar Installation''"
  "str_includes QUOTE_TEXT ''Area: Harare''"
  "str_includes QUOTE_TEXT ''Name: John''"
  "str_includes QUOTE_TEXT ''Phone: 0771234567''"
  by (simp_all add: QUOTE_TEXT_def)

text \<open>
  C8: with no endpoint configured, on a form with a feedback slot whose fields read
  John, 0771234567, solar and Harare, submitting sets the deep link
  \<open>https://wa.me/<number>?text=<encodeURIComponent of the message>\<close> to open after
  1500 ms, where the message contains "Service: Solar Installation" (the label the
  lookup gives for \<open>solar\<close>), "Area: Harare", "Name: John" and "Phone: 0771234567";
  the success notice is in the feedback slot when the handler returns, and the window
  opens only afterwards, when the timer fires.
\<close>

theorem whatsapp_scenario:
  assumes form: "doc p ''contactForm'' \<noteq> None"
    and url: "FORM_ACTION_URL cfg = []"
    and name: "rawValue (doc p) ''clientName'' = ''John''"
    and phone: "rawValue (doc p) ''clientPhone'' = ''0771234567''"
    and service: "rawValue (doc p) ''serviceType'' = ''solar''"
    and area: "rawValue (doc p) ''clientArea'' = ''Harare''"
    and feedback: "doc p ''formFeedback'' \<noteq> None"
  shows
     "waText (doc p) = QUOTE_TEXT @
        (if trimmedValue (doc p) ''clientMessage'' = [] then []
         else ''\<newline>Details: '' @ trimmedValue (doc p) ''clientMessage'') \<and>
      str_includes (waText (doc p)) (''Service: '' @ serviceLabel ''solar'') \<and>
      str_includes (waText (doc p)) ''Service: Solar Installation'' \<and>
      str_includes (waText (doc p)) ''Area: Harare'' \<and>
      str_includes (waText (doc p)) ''Name: John'' \<and>
      str_includes (waText (doc p)) ''Phone: 0771234567'' \<and>
      waUrl cfg (doc p) =
        ''https://wa.me/'' @ WHATSAPP_NUMBER cfg @ ''?text='' @ encodeURIComponent (waText (doc p)) \<and>
      timers (submit cfg r p) =
        timers p @ [(1500, OpenWindow (waUrl cfg (doc p))), (3000, EnableSubmit)] \<and>
      effects (submit cfg r p) = effects p @ [PreventDefault, Notice OPENING_WHATSAPP ''success''] \<and>
      map_option content (doc (submit cfg r p) ''formFeedback'') = Some (Text OPENING_WHATSAPP) \<and>
      (timers p = [] \<longrightarrow>
         effects (settle (submit cfg r p)) =
           effects p @
           [PreventDefault, Notice OPENING_WHATSAPP ''success'', WindowOpen (waUrl cfg (doc p))])"
proof -
  let ?p1 = "disableSubmit (p\<lparr>effects := effects p @ [PreventDefault], doc := snd (validateForm (doc p))\<rparr>)"
  let ?url = "waUrl cfg (doc p)"
  have ok: "fst (validateForm (doc p))"
    by (simp add: validateForm_ok_iff required_fields_def name phone service area trim_scenario)
  have u: "waUrl cfg (doc ?p1) = ?url"
    using waUrl_validated [of cfg "p\<lparr>effects := effects p @ [PreventDefault]\<rparr>"] by simp
  have f: "doc ?p1 ''formFeedback'' = doc p ''formFeedback''"
    using feedback_validated [of "p\<lparr>effects := effects p @ [PreventDefault]\<rparr>"] by simp
  have t: "timers ?p1 = timers p" and e: "effects ?p1 = effects p @ [PreventDefault]"
    by (simp_all add: disableSubmit_def)
  from form ok url have s: "submit cfg r p =
      (fallbackToWhatsApp cfg ?p1)\<lparr>timers := timers (fallbackToWhatsApp cfg ?p1) @ [(3000, EnableSubmit)]\<rparr>"
    by (auto simp: submit_def split_beta Let_def)
  have tm: "timers (submit cfg r p) = timers p @ [(1500, OpenWindow ?url), (3000, EnableSubmit)]"
    unfolding s using u t
    by (auto simp: fallbackToWhatsApp_def showFeedback_def Let_def split: option.splits)
  have ef: "effects (submit cfg r p) = effects p @ [PreventDefault, Notice OPENING_WHATSAPP ''success'']"
    unfolding s using f e feedback
    by (auto simp: fallbackToWhatsApp_def showFeedback_def Let_def split: option.splits)
  have fb: "map_option content (doc (submit cfg r p) ''formFeedback'') = Some (Text OPENING_WHATSAPP)"
    unfolding s using f feedback
    by (auto simp: fallbackToWhatsApp_def showFeedback_def Let_def split: option.splits)
  have st: "timers p = [] \<longrightarrow> effects (settle (submit cfg r p)) =
      effects p @ [PreventDefault, Notice OPENING_WHATSAPP ''success'', WindowOpen ?url]"
    using tm ef by (simp add: settle_def enableSubmit_def)
  note shape = waText_scenario [OF name phone service area]
  have inc: "str_includes (waText (doc p)) n" if "str_includes QUOTE_TEXT n" for n
    unfolding shape using that by (rule str_includes_append)
  have lbl: "serviceLabel ''solar'' = ''Solar Installation''"
    by (simp add: serviceLabel_def serviceLabels_def)
  have i0: "str_includes (waText (doc p)) (''Service: '' @ serviceLabel ''solar'')"
    using inc [OF QUOTE_TEXT_includes(1)] by (simp add: lbl)
  have i1: "str_includes (waText (doc p)) ''Service: Solar Installation''"
    by (rule inc) (rule QUOTE_TEXT_includes(1))
  have i2: "str_includes (waText (doc p)) ''Area: Harare''"
    by (rule inc) (rule QUOTE_TEXT_includes(2))
  have i3: "str_includes (waText (doc p)) ''Name: John''"
    by (rule inc) (rule QUOTE_TEXT_includes(3))
  have i4: "str_includes (waText (doc p)) ''Phone: 0771234567''"
    by (rule inc) (rule QUOTE_TEXT_includes(4))
  have w: "waUrl cfg (doc p) =
      ''https://wa.me/'' @ WHATSAPP_NUMBER cfg @ ''?text='' @ encodeURIComponent (waText (doc p))"
    by (simp add: waUrl_def)
  from shape i0 i1 i2 i3 i4 w tm ef fb st show ?thesis
    apply -
    apply (intro conjI)
    apply assumption+
    done
qed

theorem whatsapp_scenario_witness:
  "FORM_ACTION_URL CONFIG = [] \<and>
   timers (submit CONFIG ResponseOk enquiry_page) =
     [(1500, OpenWindow ''https://wa.me/263717675763?text=Hi%20Dosmac!%20I'd%20like%20a%20quote%20for%3A%0AService%3A%20Solar%20Installation%0AArea%3A%20Harare%0AName%3A%20John%0APhone%3A%200771234567''),
      (3000, EnableSubmit)] \<and>
   effects (submit CONFIG ResponseOk enquiry_page) = [PreventDefault, Notice OPENING_WHATSAPP ''success''] \<and>
   effects (settle (submit CONFIG ResponseOk enquiry_page)) =
     [PreventDefault, Notice OPENING_WHATSAPP ''success'',
      WindowOpen ''https://wa.me/263717675763?text=Hi%20Dosmac!%20I'd%20like%20a%20quote%20for%3A%0AService%3A%20Solar%20Installation%0AArea%3A%20Harare%0AName%3A%20John%0APhone%3A%200771234567'']"
proof -
  have raw: "rawValue (doc enquiry_page) ''clientName'' = ''John''"
    "rawValue (doc enquiry_page) ''clientPhone'' = ''0771234567''"
    "rawValue (doc enquiry_page) ''serviceType'' = ''solar''"
    "rawValue (doc enquiry_page) ''clientArea'' = ''Harare''"
    by (simp_all add: rawValue_def enquiry_page_def enquiry_doc_def field_def)
  have form: "doc enquiry_page ''contactForm'' \<noteq> None"
    and feedback: "doc enquiry_page ''formFeedback'' \<noteq> None"
    by (simp_all add: enquiry_page_def enquiry_doc_def)
  have url: "FORM_ACTION_URL CONFIG = []"
    by (simp add: CONFIG_def)
  have msg: "trimmedValue (doc enquiry_page) ''clientMessage'' = []"
    by (simp add: trimmedValue_def enquiry_page_def enquiry_doc_def field_def trim_Nil)
  have u: "waUrl CONFIG (doc enquiry_page) =
    ''https://wa.me/263717675763?text=Hi%20Dosmac!%20I'd%20like%20a%20quote%20for%3A%0AService%3A%20Solar%20Installation%0AArea%3A%20Harare%0AName%3A%20John%0APhone%3A%200771234567''"
    by code_simp
  have t: "timers enquiry_page = []" and e: "effects enquiry_page = []"
    by (simp_all add: enquiry_page_def)
  note scenario = whatsapp_scenario [OF form url raw feedback, of ResponseOk]
  from scenario have "timers (submit CONFIG ResponseOk enquiry_page) =
      timers enquiry_page @ [(1500, OpenWindow (waUrl CONFIG (doc enquiry_page))), (3000, EnableSubmit)]"
    by blast
  moreover from scenario have "effects (submit CONFIG ResponseOk enquiry_page) =
      effects enquiry_page @ [PreventDefault, Notice OPENING_WHATSAPP ''success'']"
    by blast
  moreover from scenario t have "effects (settle (submit CONFIG ResponseOk enquiry_page)) =
      effects enquiry_page @
      [PreventDefault, Notice OPENING_WHATSAPP ''success'', WindowOpen (waUrl CONFIG (doc enquiry_page))]"
    by blast
  ultimately show ?thesis
    by (simp add: u t e url)
qed








end
